theory Spec2Isabelle
  imports Main "HOL-Library.Sublist"
begin

unbundle bit_operations_syntax

section \<open>Go strings and the path helpers of the standard library\<close>

text \<open>
  A Go string is a sequence of bytes; it is modelled as a \<^typ>\<open>string\<close>.  Every
  separator the library passes to the \<open>strings\<close> package is a single byte, so the
  helpers below take the separator as a \<^typ>\<open>char\<close>.
\<close>

abbreviation (input) slash :: char where
  "slash \<equiv> CHR ''/''"

abbreviation (input) bslash :: char where
  "bslash \<equiv> CHR 0x5C"

abbreviation (input) qmark :: char where
  "qmark \<equiv> CHR ''?''"

text \<open>\<open>strings.Cut(s, sep)\<close>: the text before and after the first separator.\<close>

definition Cut :: "string \<Rightarrow> char \<Rightarrow> string \<times> string \<times> bool" where
  "Cut s sep =
     (takeWhile (\<lambda>c. c \<noteq> sep) s, drop 1 (dropWhile (\<lambda>c. c \<noteq> sep) s), sep \<in> set s)"

text \<open>\<open>strings.Split(s, sep)\<close>: never empty, \<open>Split "" sep = [""]\<close>.\<close>

fun Split :: "string \<Rightarrow> char \<Rightarrow> string list" where
  "Split [] sep = [[]]"
| "Split (c # cs) sep =
     (if c = sep then [] # Split cs sep
      else (case Split cs sep of
              [] \<Rightarrow> [[c]]
            | y # ys \<Rightarrow> (c # y) # ys))"

definition Contains :: "string \<Rightarrow> char \<Rightarrow> bool" where
  "Contains s c = (c \<in> set s)"

definition HasPrefix :: "string \<Rightarrow> string \<Rightarrow> bool" where
  "HasPrefix s p = (take (length p) s = p)"

definition TrimLeft :: "string \<Rightarrow> char \<Rightarrow> string" where
  "TrimLeft s c = dropWhile (\<lambda>x. x = c) s"

definition ReplaceAll :: "string \<Rightarrow> char \<Rightarrow> char \<Rightarrow> string" where
  "ReplaceAll s old new = map (\<lambda>c. if c = old then new else c) s"

fun JoinStrings :: "string list \<Rightarrow> char \<Rightarrow> string" where
  "JoinStrings [] sep = []"
| "JoinStrings [x] sep = x"
| "JoinStrings (x # y # ys) sep = x @ sep # JoinStrings (y # ys) sep"

text \<open>
  \<open>filepath.Clean\<close> of the standard library, for a path without a volume name, by
  its documented rules: separators are collapsed, every \<open>.\<close> element is dropped, an
  inner \<open>..\<close> removes the element before it, a \<open>..\<close> at the start of a rooted path
  is dropped and one at the start of a relative path is kept; the empty result is
  \<open>.\<close>.  \<open>clean_elem\<close> is one turn of the library's loop, on whole elements.
\<close>

definition clean_elem :: "bool \<Rightarrow> string list \<Rightarrow> string \<Rightarrow> string list" where
  "clean_elem rooted out e =
     (if e = [] \<or> e = ''.'' then out
      else if e = ''..'' then
        (if out \<noteq> [] \<and> last out \<noteq> ''..'' then butlast out
         else if \<not> rooted then out @ [''..'']
         else out)
      else out @ [e])"

definition Clean :: "char \<Rightarrow> string \<Rightarrow> string" where
  "Clean sep path =
     (if path = [] then ''.''
      else let rooted = (hd path = sep);
               out = foldl (clean_elem rooted) [] (Split path sep)
           in if rooted then sep # JoinStrings out sep
              else if out = [] then ''.''
              else JoinStrings out sep)"

text \<open>\<open>filepath.Join(a, b)\<close> on Unix: the non-empty elements, joined and cleaned.\<close>

definition Join :: "string \<Rightarrow> string \<Rightarrow> string" where
  "Join a b =
     (if a \<noteq> [] then Clean slash (a @ slash # b)
      else if b \<noteq> [] then Clean slash b
      else [])"

section \<open>Path validation\<close>

text \<open>
  The loop shared by the three validators:
  \<^verbatim>\<open>for p := path; p != ""; { part, p, _ = strings.Cut(p, sep); if part == "." || part == ".." {...; break} }\<close>
\<close>

function hasDots :: "char \<Rightarrow> string \<Rightarrow> bool" where
  "hasDots sep p =
     (if p = [] then False
      else (case Cut p sep of
              (part, p', _) \<Rightarrow>
                if part = ''.'' \<or> part = ''..'' then True else hasDots sep p'))"
  by pat_completeness auto
termination
proof (relation "measure (\<lambda>(sep, p). length p)")
  show "wf (measure (\<lambda>(sep, p). length p))" by simp
next
  fix sep :: char and p x :: string and part xa p' y
  assume "p \<noteq> []" and "(part, xa) = Cut p sep" and "(p', y) = xa"
  then have p': "p' = drop 1 (dropWhile (\<lambda>c. c \<noteq> sep) p)"
    by (simp add: Cut_def)
  have "length (dropWhile (\<lambda>c. c \<noteq> sep) p) \<le> length p"
    by (rule length_dropWhile_le)
  with \<open>p \<noteq> []\<close> have "length p' < length p"
    unfolding p' by (cases p) auto
  then show "((sep, p'), (sep, p)) \<in> measure (\<lambda>(sep, p). length p)"
    by simp
qed

declare hasDots.simps [simp del]


text \<open>Linux, \<open>canTraverseUnixRelPath\<close>.\<close>

definition canTraverseUnixRelPath :: "string \<Rightarrow> string \<times> bool" where
  "canTraverseUnixRelPath path0 =
     (if path0 = [] then ([], False)
      else let path = TrimLeft path0 slash;
               path = (if hasDots slash path then Clean slash path else path)
           in if path = ''..'' \<or> HasPrefix path ''../'' then ([], False)
              else (path, True))"

text \<open>Other Unix systems, \<open>unixRelativePathDoesntTraverse\<close>.\<close>

definition unixRelativePathDoesntTraverse :: "string \<Rightarrow> bool" where
  "unixRelativePathDoesntTraverse path0 =
     (if path0 = [] then False
      else let path = (if hasDots slash path0 then Clean slash path0 else path0)
           in if path = ''..'' \<or> HasPrefix path ''../'' then False
              else True)"

text \<open>
  Windows, \<open>winIsSimpleFilename\<close> and \<open>winRelativePathDoesntTraverse\<close>.  The
  Windows variant of \<open>filepath.Clean\<close> also treats volume names; it belongs to the
  standard library, and the validator takes it as the parameter \<open>cleanW\<close>.
\<close>

definition winIsSimpleFilename :: "string \<Rightarrow> bool" where
  "winIsSimpleFilename path =
     (\<not> (Contains path slash \<or> Contains path bslash \<or> path = ''.'' \<or> path = ''..''))"

definition winRelativePathDoesntTraverse :: "(string \<Rightarrow> string) \<Rightarrow> string \<Rightarrow> string \<times> bool" where
  "winRelativePathDoesntTraverse cleanW path0 =
     (if path0 = [] then ([], False)
      else if Contains path0 qmark then ([], False)
      else let path = ReplaceAll path0 slash bslash;
               path = (if hasDots bslash path then cleanW path else path)
           in if path = ''..'' \<or> HasPrefix path (''..'' @ [bslash]) then ([], False)
              else (path, True))"

text \<open>
  Modelled from the spec: \<open>unixIsFilename\<close> is called by both Unix back ends and
  defined in \<open>safeopen_nix_common.go\<close>, which is not among the sources.  The
  specification's rule for the direct-child mode is that the name "fails if the string
  contains any path separator, or equals \<open>.\<close> or \<open>..\<close>"; the separator of a Unix
  system is the slash.
\<close>

definition unixIsFilename :: "string \<Rightarrow> bool" where
  "unixIsFilename path = (\<not> (Contains path slash \<or> path = ''.'' \<or> path = ''..''))"



section \<open>The operating system\<close>

text \<open>
  The library reaches the file system through four system calls on Unix (\<open>open\<close>,
  \<open>openat\<close>, \<open>openat2\<close>, \<open>close\<close>) and the file methods \<open>Write\<close>, \<open>Read\<close> and
  \<open>Close\<close>.  They are modelled on a file system of numbered nodes, a table of open
  descriptors, a table of injected failures and the list of calls made so far.
  Permission bits are not held by the model, so the \<open>mode\<close> argument of the calls
  (\<open>syscallMode(perm)\<close> in the source) is left out.  Flag values are those of Linux.
\<close>

datatype errno =
  EPERM | ENOENT | EINTR | EIO | EBADF | EACCES | EEXIST | EXDEV | ENOTDIR | EISDIR
  | EINVAL | EMFILE | ENOSYS | ELOOP | EOPNOTSUPP

text \<open>On Linux \<open>ENOTSUP\<close> and \<open>EOPNOTSUPP\<close> are the same number.\<close>

abbreviation (input) ENOTSUP :: errno where
  "ENOTSUP \<equiv> EOPNOTSUPP"

text \<open>The error values the library returns.\<close>

datatype error =
  Errno errno
  | ErrorString string
  | PathError string string error
  | ErrInvalid

abbreviation (input) O_RDONLY :: int where "O_RDONLY \<equiv> 0"
abbreviation (input) O_WRONLY :: int where "O_WRONLY \<equiv> 1"
abbreviation (input) O_RDWR :: int where "O_RDWR \<equiv> 2"
abbreviation (input) O_CREAT :: int where "O_CREAT \<equiv> 0x40"
abbreviation (input) O_CREATE :: int where "O_CREATE \<equiv> 0x40"
abbreviation (input) O_EXCL :: int where "O_EXCL \<equiv> 0x80"
abbreviation (input) O_TRUNC :: int where "O_TRUNC \<equiv> 0x200"
abbreviation (input) O_APPEND :: int where "O_APPEND \<equiv> 0x400"
abbreviation (input) O_DIRECTORY :: int where "O_DIRECTORY \<equiv> 0x10000"
abbreviation (input) O_NOFOLLOW :: int where "O_NOFOLLOW \<equiv> 0x20000"
abbreviation (input) RESOLVE_NO_SYMLINKS :: int where "RESOLVE_NO_SYMLINKS \<equiv> 0x04"
abbreviation (input) RESOLVE_BENEATH :: int where "RESOLVE_BENEATH \<equiv> 0x08"

type_synonym ino = nat
type_synonym FileMode = nat

datatype node =
  Regular string
  | Dir ino "(string \<times> ino) list"
  | Symlink string

datatype syscall =
  SysOpen string int
  | SysOpenat int string int
  | SysOpenat2 int string int int
  | SysClose int
  | SysRead int
  | SysWrite int string
  | SysNtCreateFile int string int int int
  | SysCloseHandle int

text \<open>An open descriptor: the node, the flags it was opened with, the file offset.\<close>

type_synonym ofile = "ino \<times> int \<times> nat"

text \<open>
  The state a call runs in: the file system (node \<open>0\<close> is the root directory), the
  descriptor table (a descriptor is an index into it), the failures the environment
  injects, the calls made so far, and the one package-level variable of the Linux
  back end, \<open>forceLegacyMode\<close>.
\<close>

record state =
  inodes :: "node list"
  fdtab :: "ofile option list"
  faults :: "syscall \<Rightarrow> errno option"
  trace :: "syscall list"
  forceLegacyMode :: bool

definition node_at :: "node list \<Rightarrow> ino \<Rightarrow> node option" where
  "node_at fs i = (if i < length fs then Some (fs ! i) else None)"

definition fd_at :: "ofile option list \<Rightarrow> int \<Rightarrow> ofile option" where
  "fd_at tab fd = (if 0 \<le> fd \<and> nat fd < length tab then tab ! nat fd else None)"

definition open_fds :: "state \<Rightarrow> int set" where
  "open_fds s = {fd. fd_at (fdtab s) fd \<noteq> None}"

datatype walked = Found ino | Missing ino string

text \<open>
  Path resolution from the directory \<open>cur\<close>, one element at a time.  \<open>beneath\<close> and
  \<open>nosym\<close> are \<open>RESOLVE_BENEATH\<close> and \<open>RESOLVE_NO_SYMLINKS\<close> of \<open>openat2\<close>,
  \<open>nofollow\<close> is \<open>O_NOFOLLOW\<close>, which leaves a symbolic link in the last place
  unresolved; \<open>budget\<close> bounds the symbolic links followed.  \<open>Missing d n\<close> says
  that only the last element, \<open>n\<close>, does not exist in the directory \<open>d\<close>.
\<close>

function walk ::
  "node list \<Rightarrow> ino \<Rightarrow> bool \<Rightarrow> bool \<Rightarrow> bool \<Rightarrow> nat \<Rightarrow> ino \<Rightarrow> string list \<Rightarrow> errno + walked"
where
  "walk fs base beneath nosym nofollow budget cur [] = Inr (Found cur)"
| "walk fs base beneath nosym nofollow budget cur (c # cs) =
     (case node_at fs cur of
        None \<Rightarrow> Inl ENOENT
      | Some (Regular _) \<Rightarrow> Inl ENOTDIR
      | Some (Symlink _) \<Rightarrow> Inl ENOTDIR
      | Some (Dir parent entries) \<Rightarrow>
          if c = [] \<or> c = ''.'' then walk fs base beneath nosym nofollow budget cur cs
          else if c = ''..'' then
            (if beneath \<and> cur = base then Inl EXDEV
             else walk fs base beneath nosym nofollow budget parent cs)
          else
            (case map_of entries c of
               None \<Rightarrow> if cs = [] then Inr (Missing cur c) else Inl ENOENT
             | Some i \<Rightarrow>
                 (case node_at fs i of
                    None \<Rightarrow> Inl ENOENT
                  | Some (Symlink target) \<Rightarrow>
                      if cs = [] \<and> nofollow then Inr (Found i)
                      else if nosym then Inl ELOOP
                      else if budget = 0 then Inl ELOOP
                      else if target = [] then Inl ENOENT
                      else if hd target = slash then
                        (if beneath then Inl EXDEV
                         else walk fs base beneath nosym nofollow (budget - 1) 0
                                (Split target slash @ cs))
                      else walk fs base beneath nosym nofollow (budget - 1) cur
                             (Split target slash @ cs)
                  | Some _ \<Rightarrow> walk fs base beneath nosym nofollow budget i cs)))"
  by pat_completeness auto
termination
  by (relation "measures [\<lambda>(fs, base, beneath, nosym, nofollow, budget, cur, cs). budget,
                          \<lambda>(fs, base, beneath, nosym, nofollow, budget, cur, cs). length cs]")
     auto

definition add_entry :: "node list \<Rightarrow> ino \<Rightarrow> string \<Rightarrow> ino \<Rightarrow> node list" where
  "add_entry fs d name i =
     (case node_at fs d of
        Some (Dir parent entries) \<Rightarrow> fs[d := Dir parent (entries @ [(name, i)])]
      | _ \<Rightarrow> fs)"

text \<open>
  What an open does once the path is resolved: create the missing last element under
  \<open>O_CREAT\<close>, refuse a symbolic link left unresolved, a directory opened for writing
  and a non-directory under \<open>O_DIRECTORY\<close>, truncate under \<open>O_TRUNC\<close>.
\<close>

fun open_walked :: "node list \<Rightarrow> int \<Rightarrow> walked \<Rightarrow> errno + (ino \<times> node list)" where
  "open_walked fs flags (Missing d n) =
     (if flags AND O_CREAT \<noteq> 0
      then Inr (length fs, add_entry (fs @ [Regular []]) d n (length fs))
      else Inl ENOENT)"
| "open_walked fs flags (Found i) =
     (case node_at fs i of
        None \<Rightarrow> Inl ENOENT
      | Some (Symlink _) \<Rightarrow>
          if flags AND O_DIRECTORY \<noteq> 0 then Inl ENOTDIR else Inl ELOOP
      | Some (Dir _ _) \<Rightarrow>
          if flags AND O_CREAT \<noteq> 0 \<and> flags AND O_EXCL \<noteq> 0 then Inl EEXIST
          else if flags AND 3 \<noteq> O_RDONLY \<or> flags AND O_CREAT \<noteq> 0 then Inl EISDIR
          else Inr (i, fs)
      | Some (Regular _) \<Rightarrow>
          if flags AND O_CREAT \<noteq> 0 \<and> flags AND O_EXCL \<noteq> 0 then Inl EEXIST
          else if flags AND O_DIRECTORY \<noteq> 0 then Inl ENOTDIR
          else if flags AND O_TRUNC \<noteq> 0 then Inr (i, fs[i := Regular []])
          else Inr (i, fs))"

definition open_node ::
  "node list \<Rightarrow> ino \<Rightarrow> bool \<Rightarrow> bool \<Rightarrow> string \<Rightarrow> int \<Rightarrow> errno + (ino \<times> node list)"
where
  "open_node fs start beneath nosym path flags =
     (if path = [] then Inl ENOENT
      else if hd path = slash \<and> beneath then Inl EXDEV
      else
        (case walk fs start beneath nosym (flags AND O_NOFOLLOW \<noteq> 0) 40
                (if hd path = slash then 0 else start) (Split path slash) of
           Inl e \<Rightarrow> Inl e
         | Inr r \<Rightarrow> open_walked fs flags r))"

text \<open>The lowest free descriptor, as POSIX hands it out.\<close>

definition alloc_fd :: "ofile option list \<Rightarrow> nat" where
  "alloc_fd tab = length (takeWhile (\<lambda>e. e \<noteq> None) tab)"

definition install_fd :: "ofile option list \<Rightarrow> ofile \<Rightarrow> ofile option list" where
  "install_fd tab e =
     (if alloc_fd tab < length tab then tab[alloc_fd tab := Some e] else tab @ [Some e])"

definition logged :: "syscall \<Rightarrow> state \<Rightarrow> state" where
  "logged c s = s\<lparr>trace := trace s @ [c]\<rparr>"

text \<open>
  The common part of the three opening calls.  An injected failure is returned before
  anything is done; the descriptor value of a failed call is \<open>-1\<close>.
\<close>

definition sys_open ::
  "syscall \<Rightarrow> ino option \<Rightarrow> bool \<Rightarrow> bool \<Rightarrow> string \<Rightarrow> int \<Rightarrow> state
     \<Rightarrow> (int \<times> error option) \<times> state"
where
  "sys_open c start beneath nosym path flags s0 =
     (let s = logged c s0 in
      case faults s c of
        Some e \<Rightarrow> ((- 1, Some (Errno e)), s)
      | None \<Rightarrow>
          (case start of
             None \<Rightarrow> ((- 1, Some (Errno EBADF)), s)
           | Some d \<Rightarrow>
               (case open_node (inodes s) d beneath nosym path flags of
                  Inl e \<Rightarrow> ((- 1, Some (Errno e)), s)
                | Inr (i, fs') \<Rightarrow>
                    ((int (alloc_fd (fdtab s)), None),
                     s\<lparr>inodes := fs', fdtab := install_fd (fdtab s) (i, flags, 0)\<rparr>))))"

definition dir_of_fd :: "state \<Rightarrow> int \<Rightarrow> string \<Rightarrow> ino option" where
  "dir_of_fd s dirfd path =
     (if path \<noteq> [] \<and> hd path = slash then Some 0
      else map_option fst (fd_at (fdtab s) dirfd))"

text \<open>\<open>unix.Open(path, flags, mode)\<close>; the working directory is the root.\<close>

definition unix_Open :: "string \<Rightarrow> int \<Rightarrow> state \<Rightarrow> (int \<times> error option) \<times> state" where
  "unix_Open path flags s = sys_open (SysOpen path flags) (Some 0) False False path flags s"

text \<open>\<open>unix.Openat(dirfd, path, flags, mode)\<close>.\<close>

definition unix_Openat :: "int \<Rightarrow> string \<Rightarrow> int \<Rightarrow> state \<Rightarrow> (int \<times> error option) \<times> state" where
  "unix_Openat dirfd path flags s =
     sys_open (SysOpenat dirfd path flags) (dir_of_fd s dirfd path) False False path flags s"

text \<open>\<open>unix.Openat2(dirfd, path, &OpenHow{Flags, Mode, Resolve})\<close>.\<close>

definition unix_Openat2 ::
  "int \<Rightarrow> string \<Rightarrow> int \<Rightarrow> int \<Rightarrow> state \<Rightarrow> (int \<times> error option) \<times> state"
where
  "unix_Openat2 dirfd path flags resolve s =
     sys_open (SysOpenat2 dirfd path flags resolve) (dir_of_fd s dirfd path)
       (resolve AND RESOLVE_BENEATH \<noteq> 0) (resolve AND RESOLVE_NO_SYMLINKS \<noteq> 0) path flags s"

text \<open>
  \<open>unix.Close(fd)\<close>.  As on Linux, the descriptor is released also when the call
  reports a failure.
\<close>

definition release_fd :: "ofile option list \<Rightarrow> int \<Rightarrow> ofile option list" where
  "release_fd tab fd = (if 0 \<le> fd \<and> nat fd < length tab then tab[nat fd := None] else tab)"

definition unix_Close :: "int \<Rightarrow> state \<Rightarrow> error option \<times> state" where
  "unix_Close fd s0 =
     (let s = logged (SysClose fd) s0;
          s' = s\<lparr>fdtab := release_fd (fdtab s) fd\<rparr>
      in case faults s (SysClose fd) of
           Some e \<Rightarrow> (Some (Errno e), s')
         | None \<Rightarrow>
             if fd_at (fdtab s) fd = None then (Some (Errno EBADF), s) else (None, s'))"


section \<open>Files\<close>

text \<open>
  \<open>os.File\<close>: the descriptor and the name kept for diagnostics.  \<open>os.NewFile\<close> returns
  \<open>nil\<close> for a descriptor that is not valid, and the methods of a \<open>nil\<close> file return
  \<open>os.ErrInvalid\<close>.  A file pointer is a \<^typ>\<open>'a option\<close>.
\<close>

record File =
  fd :: int
  name :: string

definition NewFile :: "int \<Rightarrow> string \<Rightarrow> File option" where
  "NewFile d n = (if d < 0 then None else Some \<lparr>fd = d, name = n\<rparr>)"

definition sys_write :: "int \<Rightarrow> string \<Rightarrow> state \<Rightarrow> (nat \<times> error option) \<times> state" where
  "sys_write d b s0 =
     (let s = logged (SysWrite d b) s0 in
      case faults s (SysWrite d b) of
        Some e \<Rightarrow> ((0, Some (Errno e)), s)
      | None \<Rightarrow>
          (case fd_at (fdtab s) d of
             None \<Rightarrow> ((0, Some (Errno EBADF)), s)
           | Some (i, flags, pos) \<Rightarrow>
               if flags AND 3 = O_RDONLY then ((0, Some (Errno EBADF)), s)
               else
                 (case node_at (inodes s) i of
                    Some (Regular old) \<Rightarrow>
                      let at = (if flags AND O_APPEND \<noteq> 0 then length old else pos);
                          new = take at old @ replicate (at - length old) (CHR 0x00) @ b
                                @ drop (at + length b) old
                      in ((length b, None),
                          s\<lparr>inodes := (inodes s)[i := Regular new],
                            fdtab := (fdtab s)[nat d := Some (i, flags, at + length b)]\<rparr>)
                  | _ \<Rightarrow> ((0, Some (Errno EBADF)), s))))"

definition sys_read_all :: "int \<Rightarrow> state \<Rightarrow> (string \<times> error option) \<times> state" where
  "sys_read_all d s0 =
     (let s = logged (SysRead d) s0 in
      case faults s (SysRead d) of
        Some e \<Rightarrow> (([], Some (Errno e)), s)
      | None \<Rightarrow>
          (case fd_at (fdtab s) d of
             None \<Rightarrow> (([], Some (Errno EBADF)), s)
           | Some (i, flags, pos) \<Rightarrow>
               if flags AND 3 = O_WRONLY then (([], Some (Errno EBADF)), s)
               else
                 (case node_at (inodes s) i of
                    Some (Regular content) \<Rightarrow>
                      ((drop pos content, None),
                       s\<lparr>fdtab := (fdtab s)[nat d := Some (i, flags, max pos (length content))]\<rparr>)
                  | Some (Dir _ _) \<Rightarrow> (([], Some (Errno EISDIR)), s)
                  | _ \<Rightarrow> (([], Some (Errno EBADF)), s))))"

text \<open>\<open>f.Write(b)\<close>, \<open>io.ReadAll(f)\<close> and \<open>f.Close()\<close>.\<close>

definition File_Write :: "File option \<Rightarrow> string \<Rightarrow> state \<Rightarrow> (nat \<times> error option) \<times> state" where
  "File_Write f b s =
     (case f of
        None \<Rightarrow> ((0, Some ErrInvalid), s)
      | Some fl \<Rightarrow>
          (case sys_write (fd fl) b s of
             ((n, Some e), s') \<Rightarrow> ((n, Some (PathError ''write'' (name fl) e)), s')
           | ((n, None), s') \<Rightarrow> ((n, None), s')))"

definition ReadAll :: "File option \<Rightarrow> state \<Rightarrow> (string \<times> error option) \<times> state" where
  "ReadAll f s =
     (case f of
        None \<Rightarrow> (([], Some ErrInvalid), s)
      | Some fl \<Rightarrow>
          (case sys_read_all (fd fl) s of
             ((b, Some e), s') \<Rightarrow> ((b, Some (PathError ''read'' (name fl) e)), s')
           | ((b, None), s') \<Rightarrow> ((b, None), s')))"

definition File_Close :: "File option \<Rightarrow> state \<Rightarrow> error option \<times> state" where
  "File_Close f s =
     (case f of
        None \<Rightarrow> (Some ErrInvalid, s)
      | Some fl \<Rightarrow>
          (case unix_Close (fd fl) s of
             (Some e, s') \<Rightarrow> (Some (PathError ''close'' (name fl) e), s')
           | (None, s') \<Rightarrow> (None, s')))"

type_synonym openerFunc =
  "string \<Rightarrow> string \<Rightarrow> int \<Rightarrow> FileMode \<Rightarrow> state \<Rightarrow> (File option \<times> error option) \<times> state"

abbreviation (input) invalid_filename :: error where
  "invalid_filename \<equiv> ErrorString ''invalid filename''"

section \<open>The Linux back end\<close>

text \<open>
  \<open>openFileImplBeneath\<close>: one \<open>openat2\<close> call; the second component of the result
  says whether the call is supported.
\<close>

definition unsupported_errno :: "error \<Rightarrow> bool" where
  "unsupported_errno err =
     (case err of
        Errno errs \<Rightarrow> errs = ENOSYS \<or> errs = ENOTSUP \<or> errs = EOPNOTSUPP \<or> errs = EINVAL
      | _ \<Rightarrow> False)"

definition openFileImplBeneath ::
  "int \<Rightarrow> string \<Rightarrow> int \<Rightarrow> FileMode \<Rightarrow> int \<Rightarrow> state \<Rightarrow> (int \<times> bool \<times> error option) \<times> state"
where
  "openFileImplBeneath dfd file flag perm resolveHow s =
     (case unix_Openat2 dfd file flag (RESOLVE_BENEATH OR resolveHow) s of
        ((d, Some err), s') \<Rightarrow>
          ((0, (if unsupported_errno err then False else True), Some err), s')
      | ((d, None), s') \<Rightarrow> ((d, True, None), s'))"

text \<open>
  The loop of \<open>openFileImplLegacy\<close> over the segments before the last one.  \<open>Inl\<close> is
  the error of an early return, \<open>Inr\<close> the directory descriptor \<open>adfd\<close> the loop
  ends with.
\<close>

fun legacyDescend :: "int \<Rightarrow> int \<Rightarrow> string list \<Rightarrow> state \<Rightarrow> (error + int) \<times> state" where
  "legacyDescend dfd adfd [] s = (Inr adfd, s)"
| "legacyDescend dfd adfd (seg # segs) s =
     (if seg = [] then legacyDescend dfd adfd segs s
      else
        let odfd = adfd in
        (case unix_Openat adfd seg (O_RDONLY OR O_NOFOLLOW OR O_DIRECTORY) s of
           ((adfd', err), s1) \<Rightarrow>
             (case (if odfd \<noteq> dfd then unix_Close odfd s1 else (None, s1)) of
                (Some cerr, s2) \<Rightarrow> (Inl cerr, s2)
              | (None, s2) \<Rightarrow>
                  (case err of
                     Some e \<Rightarrow> (Inl e, s2)
                   | None \<Rightarrow> legacyDescend dfd adfd' segs s2))))"

definition openFileImplLegacy ::
  "int \<Rightarrow> string \<Rightarrow> int \<Rightarrow> FileMode \<Rightarrow> state \<Rightarrow> (int \<times> error option) \<times> state"
where
  "openFileImplLegacy dfd file flag perm s =
     (let segs = Split file slash in
      case (if length segs > 1 then legacyDescend dfd dfd (butlast segs) s else (Inr dfd, s)) of
        (Inl e, s1) \<Rightarrow> ((0, Some e), s1)
      | (Inr adfd, s1) \<Rightarrow>
          (case unix_Openat adfd (last segs) (flag OR O_NOFOLLOW) s1 of
             ((d, err), s2) \<Rightarrow>
               if adfd \<noteq> dfd
               then (case unix_Close adfd s2 of (cerr, s3) \<Rightarrow> ((d, cerr), s3))
               else ((d, err), s2)))"

definition openFileImplBeneathFirst ::
  "int \<Rightarrow> string \<Rightarrow> int \<Rightarrow> FileMode \<Rightarrow> int \<Rightarrow> state \<Rightarrow> (int \<times> error option) \<times> state"
where
  "openFileImplBeneathFirst dfd file flag perm resolveHow s =
     (if forceLegacyMode s then openFileImplLegacy dfd file flag perm s
      else
        (case openFileImplBeneath dfd file flag perm resolveHow s of
           ((d, supported, err), s1) \<Rightarrow>
             if \<not> supported then openFileImplLegacy dfd file flag perm s1
             else ((d, err), s1)))"

text \<open>\<open>openFileImpl\<close>; the deferred \<open>unix.Close(dfd)\<close> runs last, its result is dropped.\<close>

definition openFileImpl :: "string \<Rightarrow> string \<Rightarrow> int \<Rightarrow> FileMode \<Rightarrow> int \<Rightarrow> state
     \<Rightarrow> (File option \<times> error option) \<times> state"
where
  "openFileImpl directory file flag perm resolveHow s =
     (case unix_Open directory (O_RDONLY OR O_DIRECTORY) s of
        ((dfd, Some err), s1) \<Rightarrow> ((None, Some err), s1)
      | ((dfd, None), s1) \<Rightarrow>
          (case openFileImplBeneathFirst dfd file flag perm resolveHow s1 of
             ((d, Some err), s2) \<Rightarrow> ((None, Some err), snd (unix_Close dfd s2))
           | ((d, None), s2) \<Rightarrow>
               ((NewFile d (Join directory file), None), snd (unix_Close dfd s2))))"

definition openFileAt :: openerFunc where
  "openFileAt directory file flag perm s =
     (if \<not> unixIsFilename file
      then ((None, Some (PathError ''OpenAt'' file invalid_filename)), s)
      else openFileImpl directory file flag perm RESOLVE_NO_SYMLINKS s)"

text \<open>
  In \<open>openFileBeneath\<close> the result of the validator is assigned to \<open>file\<close> itself, so
  the error of a rejected path carries the empty string the validator returns.
\<close>

definition openFileBeneath :: openerFunc where
  "openFileBeneath directory file0 flag perm s =
     (case canTraverseUnixRelPath file0 of
        (file, safe) \<Rightarrow>
          if \<not> safe
          then ((None, Some (PathError ''OpenBeneath'' file invalid_filename)), s)
          else openFileImpl directory file flag perm 0 s)"

section \<open>The back end of the other Unix systems\<close>

definition openFileAt_nix :: openerFunc where
  "openFileAt_nix directory file flag perm s =
     (if \<not> unixIsFilename file
      then ((None, Some (PathError ''OpenAt'' file invalid_filename)), s)
      else
        (case unix_Open directory (O_RDONLY OR O_DIRECTORY) s of
           ((dfd, Some err), s1) \<Rightarrow> ((None, Some err), s1)
         | ((dfd, None), s1) \<Rightarrow>
             (case unix_Openat dfd file (flag OR O_NOFOLLOW) s1 of
                ((d, err), s2) \<Rightarrow>
                  let s3 = snd (unix_Close dfd s2) in
                  (case err of
                     Some e \<Rightarrow> ((None, Some e), s3)
                   | None \<Rightarrow> ((NewFile d (Join directory file), None), s3)))))"

text \<open>
  The loop of \<open>openFileBeneath\<close>: the directory descriptor is replaced at every
  segment and the one before is closed, whatever the open returned.
\<close>

fun nixDescend :: "int \<Rightarrow> string list \<Rightarrow> state \<Rightarrow> (error + int) \<times> state" where
  "nixDescend dfd [] s = (Inr dfd, s)"
| "nixDescend dfd (seg # segs) s =
     (if seg = [] then nixDescend dfd segs s
      else
        let odfd = dfd in
        (case unix_Openat dfd seg (O_RDONLY OR O_NOFOLLOW OR O_DIRECTORY) s of
           ((dfd', err), s1) \<Rightarrow>
             let s2 = snd (unix_Close odfd s1) in
             (case err of
                Some e \<Rightarrow> (Inl e, s2)
              | None \<Rightarrow> nixDescend dfd' segs s2)))"

definition openFileBeneath_nix :: openerFunc where
  "openFileBeneath_nix directory file flag perm s =
     (if \<not> unixRelativePathDoesntTraverse file
      then ((None, Some (PathError ''OpenBeneath'' file invalid_filename)), s)
      else
        (case unix_Open directory (O_RDONLY OR O_DIRECTORY) s of
           ((dfd0, Some err), s1) \<Rightarrow> ((None, Some err), s1)
         | ((dfd0, None), s1) \<Rightarrow>
             let segs = Split file slash in
             (case (if length segs > 1 then nixDescend dfd0 (butlast segs) s1
                    else (Inr dfd0, s1)) of
                (Inl e, s2) \<Rightarrow> ((None, Some e), s2)
              | (Inr dfd, s2) \<Rightarrow>
                  (case unix_Openat dfd (last segs) (flag OR O_NOFOLLOW) s2 of
                     ((d, err), s3) \<Rightarrow>
                       let s4 = snd (unix_Close dfd s3) in
                       (case err of
                          Some e \<Rightarrow> ((None, Some e), s4)
                        | None \<Rightarrow> ((NewFile d (Join directory file), None), s4))))))"

section \<open>The Windows back end\<close>

text \<open>
  The Windows back end calls \<open>windows.NtCreateFile\<close> and \<open>windows.CloseHandle\<close>, and
  \<open>filepath.Clean\<close> and \<open>filepath.Join\<close> in their Windows variants.  None of the four
  is part of the library; the back end takes them as the record \<open>w\<close>.  The arguments
  of \<open>NtCreateFile\<close> kept are the root directory of the object attributes, the object
  name, the access mask, the disposition and the options.
\<close>

record windows =
  NtCreateFile :: "int \<Rightarrow> string \<Rightarrow> int \<Rightarrow> int \<Rightarrow> int \<Rightarrow> state \<Rightarrow> (int \<times> error option) \<times> state"
  CloseHandle :: "int \<Rightarrow> state \<Rightarrow> state"
  filepath_Clean :: "string \<Rightarrow> string"
  filepath_Join :: "string \<Rightarrow> string \<Rightarrow> string"

abbreviation (input) InvalidHandle :: int where "InvalidHandle \<equiv> 18446744073709551615"
abbreviation (input) FILE_GENERIC_READ :: int where "FILE_GENERIC_READ \<equiv> 0x120089"
abbreviation (input) FILE_GENERIC_WRITE :: int where "FILE_GENERIC_WRITE \<equiv> 0x120116"
abbreviation (input) FILE_OPEN :: int where "FILE_OPEN \<equiv> 1"
abbreviation (input) FILE_CREATE :: int where "FILE_CREATE \<equiv> 2"
abbreviation (input) FILE_OVERWRITE_IF :: int where "FILE_OVERWRITE_IF \<equiv> 5"
abbreviation (input) FILE_DIRECTORY_FILE :: int where "FILE_DIRECTORY_FILE \<equiv> 0x01"
abbreviation (input) FILE_SYNCHRONOUS_IO_NONALERT :: int where "FILE_SYNCHRONOUS_IO_NONALERT \<equiv> 0x20"
abbreviation (input) FILE_NON_DIRECTORY_FILE :: int where "FILE_NON_DIRECTORY_FILE \<equiv> 0x40"
abbreviation (input) FILE_RANDOM_ACCESS :: int where "FILE_RANDOM_ACCESS \<equiv> 0x800"
abbreviation (input) FILE_OPEN_REPARSE_POINT :: int where "FILE_OPEN_REPARSE_POINT \<equiv> 0x200000"

text \<open>The prefix of an object path: a backslash, two question marks, a backslash.\<close>

abbreviation (input) nt_prefix :: string where
  "nt_prefix \<equiv> [bslash, qmark, qmark, bslash]"

text \<open>
  \<open>winOpenAt\<close>.  \<open>windows.NewNTUnicodeString\<close> fails on a name with a zero byte.
\<close>

definition winOpenAt ::
  "windows \<Rightarrow> int \<Rightarrow> string \<Rightarrow> int \<Rightarrow> int \<Rightarrow> int \<Rightarrow> state \<Rightarrow> (int \<times> error option) \<times> state"
where
  "winOpenAt w dfd file access disposition options s =
     (if CHR 0x00 \<in> set file then ((InvalidHandle, Some (Errno EINVAL)), s)
      else NtCreateFile w (if dfd \<noteq> InvalidHandle then dfd else 0) file access disposition
             (options OR FILE_OPEN_REPARSE_POINT) s)"

text \<open>\<open>os.NewFile\<close> on Windows returns \<open>nil\<close> for the invalid handle.\<close>

definition NewFile_win :: "int \<Rightarrow> string \<Rightarrow> File option" where
  "NewFile_win h n = (if h = InvalidHandle then None else Some \<lparr>fd = h, name = n\<rparr>)"

fun winDescend :: "windows \<Rightarrow> int \<Rightarrow> int \<Rightarrow> string list \<Rightarrow> state \<Rightarrow> (error + int) \<times> state" where
  "winDescend w winPerm dfd [] s = (Inr dfd, s)"
| "winDescend w winPerm dfd (seg # segs) s =
     (if seg = [] then winDescend w winPerm dfd segs s
      else
        let odfd = dfd in
        (case winOpenAt w dfd seg winPerm FILE_OPEN FILE_DIRECTORY_FILE s of
           ((dfd', err), s1) \<Rightarrow>
             let s2 = CloseHandle w odfd s1 in
             (case err of
                Some e \<Rightarrow> (Inl e, s2)
              | None \<Rightarrow> winDescend w winPerm dfd' segs s2)))"

definition openFileBeneath_win :: "windows \<Rightarrow> openerFunc" where
  "openFileBeneath_win w directory file flag perm s =
     (let winPerm = (if flag \<noteq> O_RDONLY then FILE_GENERIC_READ OR FILE_GENERIC_WRITE
                     else FILE_GENERIC_READ);
          disposition = (if flag AND O_TRUNC > 0 then FILE_OVERWRITE_IF
                         else if flag AND O_CREATE > 0 then FILE_CREATE
                         else FILE_OPEN)
      in case winRelativePathDoesntTraverse (filepath_Clean w) file of
           (sanitizedFile, safe) \<Rightarrow>
             if \<not> safe
             then ((None, Some (PathError ''OpenAt'' file invalid_filename)), s)
             else
               (case winOpenAt w InvalidHandle (nt_prefix @ directory) winPerm FILE_OPEN
                       FILE_DIRECTORY_FILE s of
                  ((dfd0, Some err), s1) \<Rightarrow> ((None, Some err), s1)
                | ((dfd0, None), s1) \<Rightarrow>
                    let segs = Split sanitizedFile bslash in
                    (case (if length segs > 1 then winDescend w winPerm dfd0 (butlast segs) s1
                           else (Inr dfd0, s1)) of
                       (Inl e, s2) \<Rightarrow> ((None, Some e), s2)
                     | (Inr dfd, s2) \<Rightarrow>
                         (case winOpenAt w dfd (last segs) winPerm disposition
                                 (FILE_RANDOM_ACCESS OR FILE_NON_DIRECTORY_FILE
                                    OR FILE_SYNCHRONOUS_IO_NONALERT) s2 of
                            ((h, err), s3) \<Rightarrow>
                              let s4 = CloseHandle w dfd s3 in
                              (case err of
                                 Some e \<Rightarrow> ((None, Some e), s4)
                               | None \<Rightarrow>
                                   ((NewFile_win h (filepath_Join w directory sanitizedFile),
                                     None), s4))))))"

definition openFileAt_win :: "windows \<Rightarrow> openerFunc" where
  "openFileAt_win w directory file flag perm s =
     (if \<not> winIsSimpleFilename file
      then ((None, Some (PathError ''OpenAt'' file invalid_filename)), s)
      else openFileBeneath_win w directory file flag perm s)"

text \<open>
  A small realisation of the four parameters on the file system above, to run the
  Windows back end on concrete inputs: an object name is split at the backslash and
  its elements are looked up as they are, a reparse point in the last place is not
  traversed, and the two path functions are those for paths without a volume name.
\<close>

definition nt_create :: "int \<Rightarrow> string \<Rightarrow> int \<Rightarrow> int \<Rightarrow> int \<Rightarrow> state \<Rightarrow> (int \<times> error option) \<times> state" where
  "nt_create root oname access disposition options s0 =
     (let c = SysNtCreateFile root oname access disposition options;
          s = logged c s0;
          rel = (if root = 0 then drop 4 oname else oname);
          elems = Split rel bslash
      in case faults s c of
           Some e \<Rightarrow> ((0, Some (Errno e)), s)
         | None \<Rightarrow>
             if (root = 0 \<and> \<not> HasPrefix oname nt_prefix) \<or> ''.'' \<in> set elems \<or> ''..'' \<in> set elems
             then ((0, Some (Errno EINVAL)), s)
             else
               (case (if root = 0 then Some 0 else map_option fst (fd_at (fdtab s) root)) of
                  None \<Rightarrow> ((0, Some (Errno EBADF)), s)
                | Some d \<Rightarrow>
                    (case walk (inodes s) d False False True 40 d elems of
                       Inl e \<Rightarrow> ((0, Some (Errno e)), s)
                     | Inr (Missing dir n) \<Rightarrow>
                         if disposition = FILE_OPEN then ((0, Some (Errno ENOENT)), s)
                         else
                           ((int (alloc_fd (fdtab s)), None),
                            s\<lparr>inodes := add_entry (inodes s @ [Regular []]) dir n
                                           (length (inodes s)),
                              fdtab := install_fd (fdtab s) (length (inodes s), O_RDWR, 0)\<rparr>)
                     | Inr (Found i) \<Rightarrow>
                         (case node_at (inodes s) i of
                            None \<Rightarrow> ((0, Some (Errno ENOENT)), s)
                          | Some (Symlink _) \<Rightarrow> ((0, Some (Errno ELOOP)), s)
                          | Some (Dir _ _) \<Rightarrow>
                              if options AND FILE_NON_DIRECTORY_FILE \<noteq> 0
                              then ((0, Some (Errno EISDIR)), s)
                              else
                                ((int (alloc_fd (fdtab s)), None),
                                 s\<lparr>fdtab := install_fd (fdtab s) (i, O_RDONLY, 0)\<rparr>)
                          | Some (Regular _) \<Rightarrow>
                              if options AND FILE_DIRECTORY_FILE \<noteq> 0
                              then ((0, Some (Errno ENOTDIR)), s)
                              else if disposition = FILE_CREATE
                              then ((0, Some (Errno EEXIST)), s)
                              else
                                ((int (alloc_fd (fdtab s)), None),
                                 s\<lparr>inodes := (if disposition = FILE_OVERWRITE_IF
                                               then (inodes s)[i := Regular []]
                                               else inodes s),
                                   fdtab := install_fd (fdtab s)
                                     (i, (if access AND 2 \<noteq> 0 then O_RDWR else O_RDONLY), 0)\<rparr>)))))"

definition nt_close :: "int \<Rightarrow> state \<Rightarrow> state" where
  "nt_close h s0 =
     (let s = logged (SysCloseHandle h) s0 in s\<lparr>fdtab := release_fd (fdtab s) h\<rparr>)"

definition windows_model :: windows where
  "windows_model =
     \<lparr>NtCreateFile = nt_create, CloseHandle = nt_close,
      filepath_Clean = Clean bslash,
      filepath_Join = (\<lambda>a b. Clean bslash (a @ bslash # b))\<rparr>"

section \<open>The public functions\<close>

text \<open>
  The build selects the back end; here the public functions take its \<open>openFileAt\<close>
  or \<open>openFileBeneath\<close> as their first argument.
\<close>

definition OpenFileAt :: "openerFunc \<Rightarrow> openerFunc" where
  "OpenFileAt openFileAt' directory file flag perm = openFileAt' directory file flag perm"

definition OpenAt :: "openerFunc \<Rightarrow> string \<Rightarrow> string \<Rightarrow> state \<Rightarrow> (File option \<times> error option) \<times> state" where
  "OpenAt openFileAt' directory file = OpenFileAt openFileAt' directory file O_RDONLY 0"

text \<open>The permission \<open>0666\<close> of the two creating functions is \<open>438\<close>.\<close>

definition CreateAt :: "openerFunc \<Rightarrow> string \<Rightarrow> string \<Rightarrow> state \<Rightarrow> (File option \<times> error option) \<times> state" where
  "CreateAt openFileAt' directory file =
     OpenFileAt openFileAt' directory file (O_RDWR OR O_CREATE OR O_TRUNC) 438"

definition OpenFileBeneath :: "openerFunc \<Rightarrow> openerFunc" where
  "OpenFileBeneath openFileBeneath' directory file flag perm =
     openFileBeneath' directory file flag perm"

definition OpenBeneath :: "openerFunc \<Rightarrow> string \<Rightarrow> string \<Rightarrow> state \<Rightarrow> (File option \<times> error option) \<times> state" where
  "OpenBeneath openFileBeneath' directory file =
     OpenFileBeneath openFileBeneath' directory file O_RDONLY 0"


definition readFile :: "string \<Rightarrow> string \<Rightarrow> openerFunc \<Rightarrow> state \<Rightarrow> (string \<times> error option) \<times> state" where
  "readFile directory file opener s =
     (case opener directory file O_RDONLY 0 s of
        ((f, Some err), s1) \<Rightarrow> (([], Some err), s1)
      | ((f, None), s1) \<Rightarrow>
          (case ReadAll f s1 of
             (r, s2) \<Rightarrow> (r, snd (File_Close f s2))))"

definition writeFile :: "string \<Rightarrow> string \<Rightarrow> string \<Rightarrow> FileMode \<Rightarrow> openerFunc \<Rightarrow> state \<Rightarrow> error option \<times> state" where
  "writeFile directory file data perm creator s =
     (case creator directory file (O_RDWR OR O_CREATE OR O_TRUNC) perm s of
        ((f, Some err), s1) \<Rightarrow> (Some err, s1)
      | ((f, None), s1) \<Rightarrow>
          (case File_Write f data s1 of
             ((n, err), s2) \<Rightarrow>
               (case File_Close f s2 of
                  (err1, s3) \<Rightarrow>
                    ((if err1 \<noteq> None \<and> err = None then err1 else err), s3))))"

definition ReadFileAt :: "openerFunc \<Rightarrow> string \<Rightarrow> string \<Rightarrow> state \<Rightarrow> (string \<times> error option) \<times> state" where
  "ReadFileAt openFileAt' directory file = readFile directory file (OpenFileAt openFileAt')"

definition WriteFileAt :: "openerFunc \<Rightarrow> string \<Rightarrow> string \<Rightarrow> string \<Rightarrow> FileMode \<Rightarrow> state \<Rightarrow> error option \<times> state" where
  "WriteFileAt openFileAt' directory file data perm =
     writeFile directory file data perm (OpenFileAt openFileAt')"

definition ReadFileBeneath :: "openerFunc \<Rightarrow> string \<Rightarrow> string \<Rightarrow> state \<Rightarrow> (string \<times> error option) \<times> state" where
  "ReadFileBeneath openFileBeneath' directory file =
     readFile directory file (OpenFileBeneath openFileBeneath')"

definition WriteFileBeneath :: "openerFunc \<Rightarrow> string \<Rightarrow> string \<Rightarrow> string \<Rightarrow> FileMode \<Rightarrow> state \<Rightarrow> error option \<times> state" where
  "WriteFileBeneath openFileBeneath' directory file data perm =
     writeFile directory file data perm (OpenFileBeneath openFileBeneath')"


section \<open>An example system\<close>

text \<open>
  The directory \<open>/tmp/x\<close> of the scenarios: the file \<open>b\<close>, the directory \<open>sub\<close>
  with the file \<open>sub/sub2/data.txt\<close> and the link \<open>sub/link\<close> to
  \<open>../../etc/passwd\<close>, and the link \<open>legit.link\<close> to \<open>b\<close>.  Descriptors 0 to 2
  are open.
\<close>

definition example_fs :: "node list" where
  "example_fs =
     [Dir 0 [(''tmp'', 1), (''etc'', 2)],
      Dir 0 [(''x'', 3)],
      Dir 0 [(''passwd'', 4)],
      Dir 1 [(''b'', 5), (''sub'', 6), (''legit.link'', 10)],
      Regular ''root:x:0:0'',
      Regular ''content of b'',
      Dir 3 [(''sub2'', 7), (''link'', 9)],
      Dir 6 [(''data.txt'', 8)],
      Regular ''hello'',
      Symlink ''../../etc/passwd'',
      Symlink ''b'']"

definition no_faults :: "syscall \<Rightarrow> errno option" where
  "no_faults c = None"


text \<open>An environment in which closing descriptor 4 reports an input/output error.\<close>

definition close4_fails :: "syscall \<Rightarrow> errno option" where
  "close4_fails c = (if c = SysClose 4 then Some EIO else None)"

definition example :: state where
  "example =
     \<lparr>inodes = example_fs,
      fdtab = [Some (4, O_RDONLY, 0), Some (4, O_WRONLY, 0), Some (4, O_WRONLY, 0)],
      faults = no_faults, trace = [], forceLegacyMode = False\<rparr>"

definition example_legacy :: state where
  "example_legacy = example\<lparr>forceLegacyMode := True\<rparr>"


definition example_close_fails :: state where
  "example_close_fails = example_legacy\<lparr>faults := close4_fails\<rparr>"




section \<open>What the system calls leave unchanged\<close>

lemma sys_open_frame:
  "trace (snd (sys_open c st b n p f s)) = trace s @ [c]"
  "faults (snd (sys_open c st b n p f s)) = faults s"
  "forceLegacyMode (snd (sys_open c st b n p f s)) = forceLegacyMode s"
  by (auto simp: sys_open_def logged_def Let_def split: option.splits sum.splits prod.splits)

lemma unix_Open_frame:
  "trace (snd (unix_Open p f s)) = trace s @ [SysOpen p f]"
  "faults (snd (unix_Open p f s)) = faults s"
  "forceLegacyMode (snd (unix_Open p f s)) = forceLegacyMode s"
  by (simp_all add: unix_Open_def sys_open_frame)


lemma unix_Openat2_frame:
  "trace (snd (unix_Openat2 d p f r s)) = trace s @ [SysOpenat2 d p f r]"
  "faults (snd (unix_Openat2 d p f r s)) = faults s"
  "forceLegacyMode (snd (unix_Openat2 d p f r s)) = forceLegacyMode s"
  by (simp_all add: unix_Openat2_def sys_open_frame)






section \<open>Strings without a separator\<close>

lemma Cut_absent: "sep \<notin> set p \<Longrightarrow> Cut p sep = (p, [], False)"
proof -
  assume a: "sep \<notin> set p"
  then have t: "takeWhile (\<lambda>c. c \<noteq> sep) p = p" and d: "dropWhile (\<lambda>c. c \<noteq> sep) p = []"
    by (auto simp: takeWhile_eq_all_conv)
  show ?thesis unfolding Cut_def t d using a by simp
qed

lemma hasDots_Nil: "hasDots sep [] = False"
  by (subst hasDots.simps) simp

lemma hasDots_absent: "sep \<notin> set p \<Longrightarrow> hasDots sep p = (p = ''.'' \<or> p = ''..'')"
  by (subst hasDots.simps) (auto simp: Cut_absent hasDots_Nil)

lemma Split_absent: "sep \<notin> set p \<Longrightarrow> Split p sep = [p]"
  by (induction p) auto

lemma ReplaceAll_absent: "old \<notin> set p \<Longrightarrow> ReplaceAll p old new = p"
  by (induction p) (auto simp: ReplaceAll_def)

lemma HasPrefix_absent: "sep \<notin> set p \<Longrightarrow> \<not> HasPrefix p (''..'' @ [sep])"
proof
  assume a: "sep \<notin> set p" and "HasPrefix p (''..'' @ [sep])"
  then have "take (length (''..'' @ [sep])) p = ''..'' @ [sep]" by (simp only: HasPrefix_def)
  then have "sep \<in> set (take (length (''..'' @ [sep])) p)" by simp
  then have "sep \<in> set p" by (rule in_set_takeD)
  with a show False by simp
qed

section \<open>Validation of a path beneath the base\<close>





















section \<open>Validation of a direct child\<close>

text \<open>
  C7.  A name that contains a path separator, and the names \<open>.\<close> and \<open>..\<close>, are
  refused by \<open>OpenAt\<close> and \<open>CreateAt\<close> on every back end with the error
  \<open>invalid filename\<close>, and the state is returned as it was: no system call has been
  made and no descriptor opened.  On Windows the backslash is a separator too.
\<close>

theorem direct_child_rejects_separators:
  "(Contains file slash \<or> file = ''.'' \<or> file = ''..'' \<longrightarrow>
      OpenAt openFileAt directory file s
        = ((None, Some (PathError ''OpenAt'' file invalid_filename)), s)
    \<and> CreateAt openFileAt directory file s
        = ((None, Some (PathError ''OpenAt'' file invalid_filename)), s)
    \<and> OpenAt openFileAt_nix directory file s
        = ((None, Some (PathError ''OpenAt'' file invalid_filename)), s)
    \<and> CreateAt openFileAt_nix directory file s
        = ((None, Some (PathError ''OpenAt'' file invalid_filename)), s))
   \<and> (Contains file slash \<or> Contains file bslash \<or> file = ''.'' \<or> file = ''..'' \<longrightarrow>
      OpenAt (openFileAt_win w) directory file s
        = ((None, Some (PathError ''OpenAt'' file invalid_filename)), s)
    \<and> CreateAt (openFileAt_win w) directory file s
        = ((None, Some (PathError ''OpenAt'' file invalid_filename)), s))"
  by (auto simp: OpenAt_def CreateAt_def OpenFileAt_def openFileAt_def openFileAt_nix_def
        openFileAt_win_def unixIsFilename_def winIsSimpleFilename_def)

theorem direct_child_rejects_separators_witness:
  "Contains ''subdir/safeopentarget'' slash
   \<and> OpenAt openFileAt ''/tmp/x'' ''subdir/safeopentarget'' example
       = ((None, Some (PathError ''OpenAt'' ''subdir/safeopentarget'' invalid_filename)), example)
   \<and> CreateAt (openFileAt_win windows_model) ''/tmp/x'' ''subdir/safeopentarget'' example
       = ((None, Some (PathError ''OpenAt'' ''subdir/safeopentarget'' invalid_filename)), example)"
proof -
  have c: "Contains ''subdir/safeopentarget'' slash"
    by (simp add: Contains_def)
  from c direct_child_rejects_separators
         [of "''subdir/safeopentarget''" "''/tmp/x''" example windows_model]
  show ?thesis by blast
qed

text \<open>
  C10.  On Windows, for a name the simple-filename check accepts, \<open>openFileAt\<close>
  returns what \<open>openFileBeneath\<close> returns; the validator of \<open>openFileBeneath\<close>
  leaves such a name as it is, and it is a single segment.
\<close>

theorem at_restricts_beneath_win:
  assumes "winIsSimpleFilename file"
  shows "openFileAt_win w directory file flag perm s = openFileBeneath_win w directory file flag perm s
       \<and> winRelativePathDoesntTraverse (filepath_Clean w) file
           = (if file = [] \<or> Contains file qmark then ([], False) else (file, True))
       \<and> Split file bslash = [file]"
proof -
  from assms have ns: "slash \<notin> set file" and nb: "bslash \<notin> set file"
    and nd: "file \<noteq> ''.''" "file \<noteq> ''..''"
    by (auto simp: winIsSimpleFilename_def Contains_def)
  have r: "ReplaceAll file slash bslash = file" using ns by (rule ReplaceAll_absent)
  have h: "\<not> hasDots bslash file" using nb nd by (simp add: hasDots_absent)
  have p: "\<not> HasPrefix file (''..'' @ [bslash])" using nb by (rule HasPrefix_absent)
  have "winRelativePathDoesntTraverse (filepath_Clean w) file
           = (if file = [] \<or> Contains file qmark then ([], False) else (file, True))"
    using r h p nd by (simp add: winRelativePathDoesntTraverse_def Let_def)
  moreover have "Split file bslash = [file]" using nb by (rule Split_absent)
  moreover have "openFileAt_win w directory file flag perm s = openFileBeneath_win w directory file flag perm s"
    using assms by (simp add: openFileAt_win_def)
  ultimately show ?thesis by simp
qed

theorem at_restricts_beneath_win_witness:
  "winIsSimpleFilename ''safeopentarget''
   \<and> openFileAt_win windows_model ''/tmp/x'' ''safeopentarget'' O_RDONLY 0 example
       = openFileBeneath_win windows_model ''/tmp/x'' ''safeopentarget'' O_RDONLY 0 example
   \<and> Split ''safeopentarget'' bslash = [''safeopentarget'']"
proof -
  have h: "winIsSimpleFilename ''safeopentarget''"
    by (simp add: winIsSimpleFilename_def Contains_def)
  from at_restricts_beneath_win [OF h, of windows_model "''/tmp/x''" O_RDONLY 0 example]
  show ?thesis using h by blast
qed

section \<open>The fast path and its fallback\<close>

text \<open>
  C6.  When the \<open>openat2\<close> call fails with an error outside the class
  \<open>ENOSYS\<close>, \<open>ENOTSUP\<close>, \<open>EOPNOTSUPP\<close>, \<open>EINVAL\<close>, that error is the result, and the
  \<open>openat2\<close> call is the only system call made: the legacy walker is not entered.
\<close>

theorem fast_path_error_is_propagated:
  assumes "\<not> forceLegacyMode s"
      and "fst (unix_Openat2 dfd file flag (RESOLVE_BENEATH OR resolveHow) s) = (d, Some err)"
      and "\<not> unsupported_errno err"
  shows "openFileImplBeneathFirst dfd file flag perm resolveHow s
           = ((0, Some err), snd (unix_Openat2 dfd file flag (RESOLVE_BENEATH OR resolveHow) s))
         \<and> trace (snd (openFileImplBeneathFirst dfd file flag perm resolveHow s))
           = trace s @ [SysOpenat2 dfd file flag (RESOLVE_BENEATH OR resolveHow)]"
proof -
  obtain s1 where o: "unix_Openat2 dfd file flag (RESOLVE_BENEATH OR resolveHow) s = ((d, Some err), s1)"
    using assms(2) by (metis prod.collapse)
  have "openFileImplBeneathFirst dfd file flag perm resolveHow s = ((0, Some err), s1)"
    using assms(1,3) o by (simp add: openFileImplBeneathFirst_def openFileImplBeneath_def)
  moreover have "trace s1 = trace s @ [SysOpenat2 dfd file flag (RESOLVE_BENEATH OR resolveHow)]"
    using unix_Openat2_frame(1)[of dfd "file" flag "RESOLVE_BENEATH OR resolveHow" s] o by simp
  ultimately show ?thesis using o by simp
qed

theorem fast_path_error_is_propagated_witness:
  "\<not> forceLegacyMode (snd (unix_Open ''/tmp/x'' (O_RDONLY OR O_DIRECTORY) example))
   \<and> fst (unix_Openat2 3 ''sub/link'' O_RDONLY (RESOLVE_BENEATH OR 0)
            (snd (unix_Open ''/tmp/x'' (O_RDONLY OR O_DIRECTORY) example))) = (- 1, Some (Errno EXDEV))
   \<and> \<not> unsupported_errno (Errno EXDEV)
   \<and> fst (openFileImplBeneathFirst 3 ''sub/link'' O_RDONLY 0 0
            (snd (unix_Open ''/tmp/x'' (O_RDONLY OR O_DIRECTORY) example))) = (0, Some (Errno EXDEV))"
proof -
  let ?s = "snd (unix_Open ''/tmp/x'' (O_RDONLY OR O_DIRECTORY) example)"
  have a: "\<not> forceLegacyMode ?s" by code_simp
  have b: "fst (unix_Openat2 3 ''sub/link'' O_RDONLY (RESOLVE_BENEATH OR 0) ?s) = (- 1, Some (Errno EXDEV))"
    by code_simp
  have c: "\<not> unsupported_errno (Errno EXDEV)" by code_simp
  from fast_path_error_is_propagated[OF a b c, of 0]
  have "fst (openFileImplBeneathFirst 3 ''sub/link'' O_RDONLY 0 0 ?s) = (0, Some (Errno EXDEV))"
    by simp
  with a b c show ?thesis by blast
qed



section \<open>The legacy walker\<close>

text \<open>
  C4 fails on the code.  With \<open>sub\<close> a directory and \<open>sub/missing\<close> absent, the
  open of the last segment fails with \<open>ENOENT\<close>; the result of closing the
  directory descriptor of \<open>sub\<close> is then assigned to the same \<open>err\<close>, and the walker
  returns the descriptor \<open>-1\<close> with no error, so \<open>OpenBeneath\<close> returns neither a
  file nor an error.  The walker of the other Unix systems returns the error.
\<close>

theorem legacy_close_replaces_leaf_error:
  "fst (unix_Open ''/tmp/x'' (O_RDONLY OR O_DIRECTORY) example_legacy) = (3, None)
   \<and> fst (openFileImplLegacy 3 ''sub/missing'' O_RDONLY 0
            (snd (unix_Open ''/tmp/x'' (O_RDONLY OR O_DIRECTORY) example_legacy))) = (- 1, None)
   \<and> fst (OpenBeneath openFileBeneath ''/tmp/x'' ''sub/missing'' example_legacy) = (None, None)
   \<and> fst (OpenBeneath openFileBeneath_nix ''/tmp/x'' ''sub/missing'' example_legacy)
        = (None, Some (Errno ENOENT))"
  by code_simp

text \<open>
  C3 fails on the code.  When closing the previous directory descriptor reports an
  error, the loop of the legacy walker returns at once, and the descriptor it has just
  opened (here 5, on \<open>sub/sub2\<close>) stays open after the call.
\<close>

theorem legacy_leaks_on_close_error:
  "fd_at (fdtab example_close_fails) 5 = None
   \<and> fst (OpenBeneath openFileBeneath ''/tmp/x'' ''sub/sub2/data.txt'' example_close_fails)
       = (None, Some (Errno EIO))
   \<and> fd_at (fdtab (snd (OpenBeneath openFileBeneath ''/tmp/x'' ''sub/sub2/data.txt'' example_close_fails))) 5
       = Some (7, O_RDONLY OR O_NOFOLLOW OR O_DIRECTORY, 0)"
  by code_simp

section \<open>The path that is walked\<close>

text \<open>
  C8 fails on the back end of the other Unix systems: it validates the cleaned path
  but walks the segments of the path as given, so with only \<open>b\<close> in the base
  directory \<open>a/../b\<close> fails at the segment \<open>a\<close>.
\<close>

theorem nix_walks_literal_path:
  "fst (OpenBeneath openFileBeneath_nix ''/tmp/x'' ''a/../b'' example) = (None, Some (Errno ENOENT))
   \<and> trace (snd (OpenBeneath openFileBeneath_nix ''/tmp/x'' ''a/../b'' example))
       = [SysOpen ''/tmp/x'' (O_RDONLY OR O_DIRECTORY),
          SysOpenat 3 ''a'' (O_RDONLY OR O_NOFOLLOW OR O_DIRECTORY), SysClose 3]"
  by code_simp

text \<open>
  The Linux back end, on the fast path and in the legacy walker, and the Windows back
  end walk the cleaned path and read \<open>b\<close>.  Walking the path as given also lets
  \<open>/../../etc/passwd\<close> leave the base directory on the other Unix systems.
\<close>

lemma linux_descends_normalized_path:
  "fst (ReadFileBeneath openFileBeneath ''/tmp/x'' ''a/../b'' example) = (''content of b'', None)
   \<and> fst (ReadFileBeneath openFileBeneath ''/tmp/x'' ''a/../b'' example_legacy) = (''content of b'', None)
   \<and> fst (ReadFileBeneath (openFileBeneath_win windows_model) (bslash # ''tmp'' @ bslash # ''x'') ''a/../b'' example)
        = (''content of b'', None)"
  by code_simp


lemma nix_escapes_base:
  "fst (ReadFileBeneath openFileBeneath_nix ''/tmp/x'' ''/../../etc/passwd'' example) = (''root:x:0:0'', None)"
  by code_simp

section \<open>Symbolic links\<close>

text \<open>
  C1 as stated fails: \<open>legit.link\<close> is a symbolic link to \<open>b\<close> in the base
  directory, and on the fast path \<open>OpenBeneath\<close> follows it.
\<close>

theorem symlink_followed_counterexample:
  "node_at example_fs 3 = Some (Dir 1 [(''b'', 5), (''sub'', 6), (''legit.link'', 10)])
   \<and> node_at example_fs 10 = Some (Symlink ''b'')
   \<and> fst (OpenBeneath openFileBeneath ''/tmp/x'' ''legit.link'' example)
       = (Some \<lparr>fd = 4, name = ''/tmp/x/legit.link''\<rparr>, None)
   \<and> fst (ReadFileBeneath openFileBeneath ''/tmp/x'' ''legit.link'' example) = (''content of b'', None)"
  by code_simp

end
